theory Spec2Isabelle
  imports Complex_Main
begin

section \<open>Numbers, vectors and the calls made on the physics body\<close>

text \<open>
  The game is one React component file, in two variants: \<open>src/App.tsx\<close> (touch buttons) and
  its sibling with a virtual joystick. The per-frame callbacks of \<open>Player\<close> and
  \<open>MovingPlatform\<close> are embedded here as functions from what a frame reads (the refs fed by
  the physics subscriptions, the input objects, the shared \<open>platformsMap\<close>) to what it does
  (the calls on \<open>api\<close> and on the camera, in order, and the updated refs).

  A JavaScript \<open>number\<close> is modelled as a \<open>real\<close>: rounding of IEEE doubles, infinities
  and NaN are outside the model. An index produced by \<open>Math.round\<close> is an \<open>int\<close>.
\<close>

type_synonym vec3 = "real \<times> real \<times> real"

definition at0 :: "vec3 \<Rightarrow> real" where
  "at0 v = fst v"

definition at1 :: "vec3 \<Rightarrow> real" where
  "at1 v = fst (snd v)"

definition at2 :: "vec3 \<Rightarrow> real" where
  "at2 v = snd (snd v)"

text \<open>\<open>Math.round\<close> rounds to the nearest integer, a tie towards plus infinity.\<close>

definition Math_round :: "real \<Rightarrow> int" where
  "Math_round x = \<lfloor>x + 1 / 2\<rfloor>"

text \<open>
  \<open>platformsMap\<close> is a \<open>Map<number, number>\<close>. \<open>platformsMap.get(index) || 0\<close> yields the
  stored value unless the key is missing (\<open>undefined\<close>) or the value is falsy (zero).
\<close>

type_synonym platforms_map = "int \<rightharpoonup> real"

definition get_or :: "platforms_map \<Rightarrow> int \<Rightarrow> real \<Rightarrow> real" where
  "get_or m k d = (case m k of None \<Rightarrow> d | Some v \<Rightarrow> if v = 0 then d else v)"

datatype api_call =
    PositionSet vec3
  | VelocitySet vec3
  | CameraLerp vec3 real
  | CameraLookAt vec3

definition initialPosition :: vec3 where
  "initialPosition = (0, 5, 0)"

definition CAMERA_OFFSET :: vec3 where
  "CAMERA_OFFSET = (0, 5, 10)"

definition moveSpeed :: real where
  "moveSpeed = 6"


section \<open>MovingPlatform\<close>

record platform_data =
  position :: vec3
  offset :: real
  range_amp :: real
  speed :: real

record platform_props = platform_data +
  index :: int

record platform_frame =
  map_after :: platforms_map
  position_set :: vec3
  velocity_set :: vec3

text \<open>
  The \<open>useFrame\<close> callback of \<open>MovingPlatform\<close>; \<open>elapsed\<close> is
  \<open>state.clock.getElapsedTime()\<close>, \<open>range_amp\<close> is the prop \<open>range\<close>.
\<close>

definition MovingPlatform_useFrame :: "platform_props \<Rightarrow> real \<Rightarrow> platforms_map \<Rightarrow> platform_frame" where
  "MovingPlatform_useFrame p elapsed platformsMap =
     (let t = elapsed + offset p;
          x = at0 (position p) + sin (t * speed p) * range_amp p;
          vx = cos (t * speed p) * speed p * range_amp p
      in \<lparr> map_after = platformsMap(index p \<mapsto> vx),
           position_set = (x, at1 (position p), at2 (position p)),
           velocity_set = (vx, 0, 0) \<rparr>)"


section \<open>Ride resolution\<close>

definition isGrounded :: "vec3 \<Rightarrow> bool" where
  "isGrounded v = (\<bar>at1 v\<bar> < 0.5)"

text \<open>The block that computes \<open>extraX\<close> in the \<open>useFrame\<close> callback of \<open>Player\<close>.\<close>

definition extraX :: "platforms_map \<Rightarrow> bool \<Rightarrow> vec3 \<Rightarrow> real" where
  "extraX platformsMap grounded p =
     (if grounded \<and> at1 p > - 0.1 then
        (let index = Math_round ((at2 p + 10) / (- 6));
             targetZ = - 10 - real_of_int index * 6
         in if index \<ge> 0 \<and> \<bar>at2 p - targetZ\<bar> < 2.5
            then get_or platformsMap index 0
            else 0)
      else 0)"

text \<open>
  The same guards, returning the key at which the table is read (\<open>None\<close> when the lookup
  is not reached).
\<close>

definition rideIndex :: "bool \<Rightarrow> vec3 \<Rightarrow> int option" where
  "rideIndex grounded p =
     (if grounded \<and> at1 p > - 0.1 then
        (let index = Math_round ((at2 p + 10) / (- 6));
             targetZ = - 10 - real_of_int index * 6
         in if index \<ge> 0 \<and> \<bar>at2 p - targetZ\<bar> < 2.5
            then Some index
            else None)
      else None)"


section \<open>Player\<close>

text \<open>
  What a frame of \<open>Player\<close> reads besides its own refs: \<open>keyboard\<close> is \<open>getKeys()\<close>,
  \<open>mobileInput\<close> the touch buttons of \<open>src/App.tsx\<close>, \<open>joystickVector\<close> (as the pair
  \<open>(x, y)\<close>) and \<open>mobileJump\<close> (\<open>mobileJump.active\<close>) the module state of the joystick
  variant, \<open>platformsMap\<close> the shared table.
\<close>

record controls =
  forward :: bool
  backward :: bool
  left :: bool
  right :: bool
  jump :: bool

record frame_env =
  keyboard :: controls
  mobileInput :: controls
  joystickVector :: "real \<times> real"
  mobileJump :: bool
  platformsMap :: platforms_map

text \<open>
  The refs of \<open>Player\<close>. \<open>pos\<close> and \<open>vel\<close> are written only by the subscriptions of the
  physics body, never by the frame callback; \<open>wasJumpPressed\<close> only by the callback.
\<close>

record player_refs =
  pos :: vec3
  vel :: vec3
  wasJumpPressed :: bool

subsection \<open>The button variant (\<open>src/App.tsx\<close>)\<close>

definition jump_buttons :: "frame_env \<Rightarrow> bool" where
  "jump_buttons e = (jump (keyboard e) \<or> jump (mobileInput e))"

definition dxdz :: "frame_env \<Rightarrow> real \<times> real" where
  "dxdz e =
     (let forward' = (forward (keyboard e) \<or> forward (mobileInput e));
          backward' = (backward (keyboard e) \<or> backward (mobileInput e));
          left' = (left (keyboard e) \<or> left (mobileInput e));
          right' = (right (keyboard e) \<or> right (mobileInput e));
          dx = (if left' then - 1 else 0) + (if right' then 1 else 0);
          dz = (if forward' then - 1 else 0) + (if backward' then 1 else 0)
      in (dx, dz))"

definition direction :: "real \<times> real \<Rightarrow> real \<times> real" where
  "direction d =
     (let dx = fst d; dz = snd d;
          len = sqrt (dx * dx + dz * dz);
          directionX = (if len > 0 then (dx / len) * moveSpeed else 0);
          directionZ = (if len > 0 then (dz / len) * moveSpeed else 0)
      in (directionX, directionZ))"

definition camera_calls :: "vec3 \<Rightarrow> api_call list" where
  "camera_calls p =
     [CameraLerp (at0 p + at0 CAMERA_OFFSET, at1 p + at1 CAMERA_OFFSET, at2 p + at2 CAMERA_OFFSET) 0.1,
      CameraLookAt (at0 p, at1 p, at2 p)]"

definition Player_useFrame :: "frame_env \<Rightarrow> player_refs \<Rightarrow> api_call list \<times> player_refs" where
  "Player_useFrame e r =
     (let jump' = jump_buttons e;
          grounded = isGrounded (vel r)
      in if at1 (pos r) < - 5
         then ([PositionSet initialPosition, VelocitySet (0, 0, 0)], r)
         else
           (let d = dxdz e;
                ex = extraX (platformsMap e) grounded (pos r);
                directionX = fst (direction d);
                directionZ = snd (direction d)
            in ([VelocitySet (directionX + ex, at1 (vel r), directionZ)]
                @ (if jump' \<and> \<not> wasJumpPressed r \<and> grounded
                   then [VelocitySet (at0 (vel r), 9, at2 (vel r))] else [])
                @ camera_calls (pos r),
                r\<lparr>wasJumpPressed := jump'\<rparr>)))"

subsection \<open>The joystick variant\<close>

definition jump_joystick :: "frame_env \<Rightarrow> bool" where
  "jump_joystick e = (jump (keyboard e) \<or> mobileJump e)"

definition inputXZ :: "controls \<Rightarrow> real \<times> real \<Rightarrow> real \<times> real" where
  "inputXZ kb joy =
     (let kx = (if left kb then - 1 else 0) + (if right kb then 1 else 0);
          kz = (if forward kb then - 1 else 0) + (if backward kb then 1 else 0);
          inputX = (if kx \<noteq> 0 then kx else fst joy);
          inputZ = (if kz \<noteq> 0 then kz else snd joy)
      in (inputX, inputZ))"

definition velXZ :: "real \<times> real \<Rightarrow> real \<times> real" where
  "velXZ i =
     (let inputX = fst i; inputZ = snd i;
          len = sqrt (inputX * inputX + inputZ * inputZ);
          velX = (if len > 0 then (inputX / (if len > 1 then len else 1)) * moveSpeed else 0);
          velZ = (if len > 0 then (inputZ / (if len > 1 then len else 1)) * moveSpeed else 0)
      in (velX, velZ))"

definition Player_useFrame_joystick :: "frame_env \<Rightarrow> player_refs \<Rightarrow> api_call list \<times> player_refs" where
  "Player_useFrame_joystick e r =
     (let i = inputXZ (keyboard e) (joystickVector e);
          jump' = jump_joystick e;
          grounded = isGrounded (vel r)
      in if at1 (pos r) < - 5
         then ([PositionSet initialPosition, VelocitySet (0, 0, 0)], r)
         else
           (let ex = extraX (platformsMap e) grounded (pos r);
                velX = fst (velXZ i);
                velZ = snd (velXZ i)
            in ([VelocitySet (velX + ex, at1 (vel r), velZ)]
                @ (if jump' \<and> \<not> wasJumpPressed r \<and> grounded
                   then [VelocitySet (at0 (vel r), 9, at2 (vel r))] else [])
                @ camera_calls (pos r),
                r\<lparr>wasJumpPressed := jump'\<rparr>)))"

subsection \<open>Frames in sequence\<close>

text \<open>
  The render loop calls the frame callback once per frame. Between two frames the
  subscriptions overwrite \<open>pos\<close> and \<open>vel\<close> and the input objects change; only
  \<open>wasJumpPressed\<close> is carried over. A frame is given as what it reads: the environment
  and the position and velocity last delivered. The result lists the calls of each frame.
\<close>

fun runFrames ::
  "(frame_env \<Rightarrow> player_refs \<Rightarrow> api_call list \<times> player_refs) \<Rightarrow> bool \<Rightarrow>
   (frame_env \<times> vec3 \<times> vec3) list \<Rightarrow> api_call list list" where
  "runFrames useFrame w [] = []"
| "runFrames useFrame w ((e, p, v) # fs) =
     (let res = useFrame e \<lparr> pos = p, vel = v, wasJumpPressed = w \<rparr>
      in fst res # runFrames useFrame (wasJumpPressed (snd res)) fs)"

fun is_jump_impulse :: "api_call \<Rightarrow> bool" where
  "is_jump_impulse (VelocitySet v) = (at1 v = 9)"
| "is_jump_impulse (PositionSet v) = False"
| "is_jump_impulse (CameraLerp v a) = False"
| "is_jump_impulse (CameraLookAt v) = False"

definition jumpImpulse :: "api_call list \<Rightarrow> bool" where
  "jumpImpulse calls = list_ex is_jump_impulse calls"

text \<open>The velocity the body is left with by a frame: the argument of the last \<open>api.velocity.set\<close>.\<close>

fun finalVelocity :: "api_call list \<Rightarrow> vec3 option" where
  "finalVelocity [] = None"
| "finalVelocity (c # cs) =
     (case finalVelocity cs of
        Some v \<Rightarrow> Some v
      | None \<Rightarrow> (case c of VelocitySet v \<Rightarrow> Some v | _ \<Rightarrow> None))"

fun is_position_set :: "api_call \<Rightarrow> bool" where
  "is_position_set (PositionSet v) = True"
| "is_position_set (VelocitySet v) = False"
| "is_position_set (CameraLerp v a) = False"
| "is_position_set (CameraLookAt v) = False"

fun is_camera_call :: "api_call \<Rightarrow> bool" where
  "is_camera_call (CameraLerp v a) = True"
| "is_camera_call (CameraLookAt v) = True"
| "is_camera_call (PositionSet v) = False"
| "is_camera_call (VelocitySet v) = False"


section \<open>The scene built by App\<close>

text \<open>
  \<open>platforms\<close> is filled by a loop over \<open>i = 0 .. 9\<close> that draws four random numbers per
  platform; \<open>rnd\<close> is the sequence of results of \<open>Math.random()\<close>. Each element is mounted
  as a \<open>MovingPlatform\<close> whose \<open>index\<close> is its place in the array.
\<close>

definition platforms :: "(nat \<Rightarrow> real) \<Rightarrow> platform_data list" where
  "platforms rnd =
     map (\<lambda>i. \<lparr> position = ((rnd (4 * i) - 0.5) * 8, 0, - 10 - real i * 6),
                offset = rnd (4 * i + 1) * pi * 2,
                range_amp = 2 + rnd (4 * i + 2) * 3,
                speed = 1 + rnd (4 * i + 3) * 1.5 \<rparr>) [0 ..< 10]"

definition mounted :: "(nat \<Rightarrow> real) \<Rightarrow> platform_props list" where
  "mounted rnd =
     map (\<lambda>(i, p). \<lparr> position = position p, offset = offset p, range_amp = range_amp p,
                     speed = speed p, index = int i \<rparr>) (enumerate 0 (platforms rnd))"

definition goalPosition :: "(nat \<Rightarrow> real) \<Rightarrow> vec3" where
  "goalPosition rnd = (0, 0, - 10 - real (length (platforms rnd)) * 6 - 5)"

text \<open>
  The table after a sequence of platform frames, in any order and at any times: each step
  is the frame callback of one mounted platform at one elapsed time.
\<close>

fun platformFrames :: "(platform_props \<times> real) list \<Rightarrow> platforms_map \<Rightarrow> platforms_map" where
  "platformFrames [] m = m"
| "platformFrames ((p, t) # fs) m = platformFrames fs (map_after (MovingPlatform_useFrame p t m))"


section \<open>Initial module state and the specification's normalisation\<close>

text \<open>
  The module-level objects as the files initialise them: every flag of \<open>mobileInput\<close>
  false, \<open>joystickVector\<close> at the origin, \<open>mobileJump.active\<close> false, \<open>platformsMap\<close> a
  new empty \<open>Map\<close>; no key held.
\<close>

definition released :: controls where
  "released = \<lparr> forward = False, backward = False, left = False, right = False, jump = False \<rparr>"

definition initial_env :: frame_env where
  "initial_env = \<lparr> keyboard = released, mobileInput = released, joystickVector = (0, 0),
                    mobileJump = False, platformsMap = Map.empty \<rparr>"

text \<open>
  The normalisation in the specification's words, to compare the code with: the input
  vector is divided by its magnitude only when the magnitude exceeds 1.
\<close>

definition spec_normalize :: "real \<times> real \<Rightarrow> real \<times> real" where
  "spec_normalize i =
     (let n = sqrt ((fst i)\<^sup>2 + (snd i)\<^sup>2)
      in if n > 1 then (fst i / n, snd i / n) else i)"


section \<open>Helper lemmas\<close>

lemma extraX_rideIndex:
  "extraX m g p = (case rideIndex g p of None \<Rightarrow> 0 | Some i \<Rightarrow> get_or m i 0)"
  by (simp add: extraX_def rideIndex_def Let_def)

lemma Math_round_near:
  assumes "\<bar>d\<bar> < 1 / 2"
  shows "Math_round (real_of_int i + d) = i"
  using assms by (simp add: Math_round_def floor_eq_iff) linarith

lemma rideIndex_on_band:
  assumes "0 \<le> i" and "py > - 0.1" and "\<bar>d\<bar> < 2.5"
  shows "rideIndex True (px, py, - 10 - 6 * real_of_int i + d) = Some i"
proof -
  have "(- 10 - 6 * real_of_int i + d + 10) / (- 6) = real_of_int i + (- d / 6)"
    by (simp add: field_simps)
  moreover have "\<bar>- d / 6\<bar> < 1 / 2"
    using assms(3) by simp
  ultimately have "Math_round ((- 10 - 6 * real_of_int i + d + 10) / (- 6)) = i"
    using Math_round_near by presburger
  then show ?thesis
    using assms by (simp add: rideIndex_def at1_def at2_def Let_def)
qed

lemma rideIndex_off_band:
  assumes "\<bar>d\<bar> < 3" and "2.5 \<le> \<bar>d\<bar>"
  shows "rideIndex g (px, py, - 10 - 6 * real_of_int i + d) = None"
proof -
  have "(- 10 - 6 * real_of_int i + d + 10) / (- 6) = real_of_int i + (- d / 6)"
    by (simp add: field_simps)
  moreover have "\<bar>- d / 6\<bar> < 1 / 2"
    using assms(1) by simp
  ultimately have "Math_round ((- 10 - 6 * real_of_int i + d + 10) / (- 6)) = i"
    using Math_round_near by presburger
  then show ?thesis
    using assms by (simp add: rideIndex_def at1_def at2_def Let_def)
qed

lemma get_or_Some: "m i = Some v \<Longrightarrow> get_or m i 0 = v"
  by (simp add: get_or_def)

lemma get_or_None: "m i = None \<Longrightarrow> get_or m i 0 = 0"
  by (simp add: get_or_def)


lemma dxdz_cases:
  "dxdz e \<in> {(-1,-1), (-1,0), (-1,1), (0,-1), (0,0), (0,1), (1,-1), (1,0), (1,1)}"
  by (simp add: dxdz_def Let_def)

lemma direction_discrete:
  assumes "dx \<in> {- 1, 0, 1}" and "dz \<in> {- 1, 0, 1}"
  shows "direction (dx, dz) = velXZ (dx, dz)"
  using assms by (auto simp: direction_def velXZ_def Let_def)

lemma velXZ_spec:
  "velXZ i = (fst (spec_normalize i) * 6, snd (spec_normalize i) * 6)"
proof -
  obtain x z where i: "i = (x, z)" by (cases i)
  have z: "sqrt (x * x + z * z) \<le> 0 \<Longrightarrow> x = 0 \<and> z = 0"
  proof -
    assume "sqrt (x * x + z * z) \<le> 0"
    then have "x * x + z * z \<le> 0" by simp
    then show ?thesis
      by (metis add_nonneg_eq_0_iff antisym mult_eq_0_iff zero_le_square  add_nonneg_nonneg)
  qed
  show ?thesis
    using z by (auto simp: i velXZ_def spec_normalize_def Let_def moveSpeed_def power2_eq_square not_less)
qed

lemma direction_spec:
  "direction (dxdz e) = (fst (spec_normalize (dxdz e)) * 6, snd (spec_normalize (dxdz e)) * 6)"
proof -
  obtain dx dz where d: "dxdz e = (dx, dz)" by (cases "dxdz e")
  have "dx \<in> {- 1, 0, 1}" and "dz \<in> {- 1, 0, 1}"
    using dxdz_cases [of e] unfolding d by auto
  then have "direction (dx, dz) = velXZ (dx, dz)"
    by (rule direction_discrete)
  then show ?thesis
    unfolding d by (simp only: velXZ_spec)
qed

lemma diagonal_speed:
  assumes "x \<in> {- 1, 1}" and "z \<in> {- 1, 1}"
  shows "sqrt ((fst (velXZ (x, z)))\<^sup>2 + (snd (velXZ (x, z)))\<^sup>2) = 6"
proof -
  have len: "sqrt (x * x + z * z) = sqrt 2"
    using assms by auto
  have sq: "(x / sqrt 2 * 6)\<^sup>2 = 18" "(z / sqrt 2 * 6)\<^sup>2 = 18"
    using assms by (auto simp: power2_eq_square field_simps)
  have v: "velXZ (x, z) = (x / sqrt 2 * 6, z / sqrt 2 * 6)"
    unfolding velXZ_def Let_def fst_conv snd_conv len by (simp add: moveSpeed_def)
  have "sqrt ((fst (velXZ (x, z)))\<^sup>2 + (snd (velXZ (x, z)))\<^sup>2) = sqrt 36"
    unfolding v fst_conv snd_conv sq by simp
  also have "sqrt 36 = sqrt (6\<^sup>2)" by simp
  also have "\<dots> = 6" by simp
  finally show ?thesis .
qed

lemma frame_calls_buttons:
  assumes "\<not> at1 (pos r) < - 5"
  shows "fst (Player_useFrame e r) =
           [VelocitySet (fst (spec_normalize (dxdz e)) * 6
                           + extraX (platformsMap e) (isGrounded (vel r)) (pos r),
                         at1 (vel r),
                         snd (spec_normalize (dxdz e)) * 6)]
           @ (if jump_buttons e \<and> \<not> wasJumpPressed r \<and> isGrounded (vel r)
              then [VelocitySet (at0 (vel r), 9, at2 (vel r))] else [])
           @ camera_calls (pos r)"
  using assms by (simp add: Player_useFrame_def Let_def direction_spec)

lemma frame_calls_joystick:
  assumes "\<not> at1 (pos r) < - 5"
  shows "fst (Player_useFrame_joystick e r) =
           [VelocitySet (fst (spec_normalize (inputXZ (keyboard e) (joystickVector e))) * 6
                           + extraX (platformsMap e) (isGrounded (vel r)) (pos r),
                         at1 (vel r),
                         snd (spec_normalize (inputXZ (keyboard e) (joystickVector e))) * 6)]
           @ (if jump_joystick e \<and> \<not> wasJumpPressed r \<and> isGrounded (vel r)
              then [VelocitySet (at0 (vel r), 9, at2 (vel r))] else [])
           @ camera_calls (pos r)"
  using assms by (simp add: Player_useFrame_joystick_def Let_def velXZ_spec)

lemma finalVelocity_steering_frame:
  "finalVelocity ([VelocitySet a] @ [] @ camera_calls p) = Some a"
  by (simp add: camera_calls_def)

lemma diagonal_abs:
  assumes "\<bar>fst i\<bar> = 1" and "\<bar>snd i\<bar> = 1"
  shows "sqrt ((fst (velXZ i))\<^sup>2 + (snd (velXZ i))\<^sup>2) = 6"
    and "direction i = velXZ i"
proof -
  obtain x z where i: "i = (x, z)" by (cases i)
  have x: "x \<in> {- 1, 1}" and z: "z \<in> {- 1, 1}"
    using assms unfolding i by auto
  show "sqrt ((fst (velXZ i))\<^sup>2 + (snd (velXZ i))\<^sup>2) = 6"
    unfolding i using x z by (rule diagonal_speed)
  have "x \<in> {- 1, 0, 1}" and "z \<in> {- 1, 0, 1}"
    using x z by auto
  then show "direction i = velXZ i"
    unfolding i by (rule direction_discrete)
qed

lemma finalVelocity_jump_frame:
  "finalVelocity ([VelocitySet a, VelocitySet b] @ camera_calls p) = Some b"
  by (simp add: camera_calls_def)

lemma frame_buttons_jump:
  assumes "isGrounded v" and "\<not> at1 p < - 5"
  shows "jumpImpulse (fst (Player_useFrame e \<lparr> pos = p, vel = v, wasJumpPressed = w \<rparr>)) = (jump_buttons e \<and> \<not> w)
       \<and> wasJumpPressed (snd (Player_useFrame e \<lparr> pos = p, vel = v, wasJumpPressed = w \<rparr>)) = jump_buttons e"
proof -
  have "at1 v \<noteq> 9"
    using assms(1) by (auto simp: isGrounded_def)
  then show ?thesis
    using assms by (simp add: Player_useFrame_def Let_def jumpImpulse_def camera_calls_def at1_def)
qed

lemma frame_joystick_jump:
  assumes "isGrounded v" and "\<not> at1 p < - 5"
  shows "jumpImpulse (fst (Player_useFrame_joystick e \<lparr> pos = p, vel = v, wasJumpPressed = w \<rparr>)) = (jump_joystick e \<and> \<not> w)
       \<and> wasJumpPressed (snd (Player_useFrame_joystick e \<lparr> pos = p, vel = v, wasJumpPressed = w \<rparr>)) = jump_joystick e"
proof -
  have "at1 v \<noteq> 9"
    using assms(1) by (auto simp: isGrounded_def)
  then show ?thesis
    using assms by (simp add: Player_useFrame_joystick_def Let_def jumpImpulse_def camera_calls_def at1_def)
qed

lemma runFrames_length: "length (runFrames uf w fs) = length fs"
  by (induction fs arbitrary: w) (auto simp: Let_def)

lemma runFrames_edge:
  assumes step: "\<And>e p v w. isGrounded v \<Longrightarrow> \<not> at1 p < - 5 \<Longrightarrow>
            jumpImpulse (fst (uf e \<lparr> pos = p, vel = v, wasJumpPressed = w \<rparr>)) = (jmp e \<and> \<not> w)
          \<and> wasJumpPressed (snd (uf e \<lparr> pos = p, vel = v, wasJumpPressed = w \<rparr>)) = jmp e"
    and ok: "\<forall>(e, p, v) \<in> set fs. isGrounded v \<and> \<not> at1 p < - 5"
    and k: "k < length fs"
  shows "jumpImpulse (runFrames uf w fs ! k) =
           (jmp (fst (fs ! k)) \<and> \<not> (if k = 0 then w else jmp (fst (fs ! (k - 1)))))"
  using ok k
proof (induction fs arbitrary: w k)
  case Nil
  then show ?case by simp
next
  case (Cons f fs)
  obtain e p v where f: "f = (e, p, v)" by (cases f)
  have g: "isGrounded v" "\<not> at1 p < - 5"
    using Cons.prems(1) by (simp_all add: f)
  note s = step [OF g, of e w]
  show ?case
  proof (cases k)
    case 0
    then show ?thesis using s by (simp add: f Let_def)
  next
    case (Suc n)
    have rest: "\<forall>(e, p, v) \<in> set fs. isGrounded v \<and> \<not> at1 p < - 5"
      using Cons.prems(1) by simp
    have n: "n < length fs"
      using Cons.prems(2) Suc by simp
    have "jumpImpulse (runFrames uf (jmp e) fs ! n) =
            (jmp (fst (fs ! n)) \<and> \<not> (if n = 0 then jmp e else jmp (fst (fs ! (n - 1)))))"
      using Cons.IH [OF rest n] .
    then show ?thesis
      using s Suc by (cases n) (simp_all add: f Let_def)
  qed
qed

lemma length_platforms: "length (platforms rnd) = 10"
  by (simp add: platforms_def)

lemma index_mounted: "map index (mounted rnd) = map int [0 ..< 10]"
proof -
  have "map index (mounted rnd) = map (int \<circ> fst) (enumerate 0 (platforms rnd))"
    by (simp add: mounted_def case_prod_beta comp_def)
  also have "\<dots> = map int (map fst (enumerate 0 (platforms rnd)))"
    by (simp only: map_map)
  also have "\<dots> = map int [0 ..< 10]"
    by (simp only: map_fst_enumerate length_platforms) simp
  finally show ?thesis .
qed

lemma index_mounted_set: "index ` set (mounted rnd) = {0 .. 9}"
proof -
  have "index ` set (mounted rnd) = set (map index (mounted rnd))"
    by simp
  also have "\<dots> = int ` {0 ..< 10}"
    by (simp only: index_mounted set_map set_upt)
  also have "\<dots> = {0 .. 9}"
  proof
    show "int ` {0 ..< 10} \<subseteq> {0 .. 9}" by auto
    show "{0 .. 9} \<subseteq> int ` {0 ..< 10}"
    proof
      fix x :: int
      assume "x \<in> {0 .. 9}"
      then have "x = int (nat x)" and "nat x \<in> {0 ..< 10}" by auto
      then show "x \<in> int ` {0 ..< 10}" by (rule image_eqI)
    qed
  qed
  finally show ?thesis .
qed

lemma dom_MovingPlatform:
  "dom (map_after (MovingPlatform_useFrame p t m)) = insert (index p) (dom m)"
  by (simp add: MovingPlatform_useFrame_def Let_def)

lemma dom_platformFrames:
  "dom (platformFrames fs m) = dom m \<union> index ` fst ` set fs"
proof (induction fs m rule: platformFrames.induct)
  case (1 m)
  then show ?case by simp
next
  case (2 p t fs m)
  then show ?case by (simp add: dom_MovingPlatform)
qed

lemma goal_z: "at2 (goalPosition rnd) = - 75"
  by (simp add: goalPosition_def at2_def length_platforms)

lemma mounted_not_Nil: "mounted rnd \<noteq> []"
proof -
  have "length (mounted rnd) = 10"
    by (simp add: mounted_def length_platforms)
  then show ?thesis by auto
qed


section \<open>Properties of the frame callbacks\<close>

text \<open>
  C1. For a player grounded with \<open>py > -0.1\<close> whose Z is exactly platform \<open>i\<close>'s target
  \<open>-10 - 6 i\<close> (\<open>i \<ge> 0\<close>), the ride resolver reads the table at index \<open>i\<close> and \<open>extraX\<close> is
  that platform's velocity; at the target plus or minus 2.49 it still does; at plus or
  minus 2.51 it reads nothing and \<open>extraX\<close> is 0.
\<close>

theorem C1_ride_resolver_tolerance:
  assumes "0 \<le> i" and "isGrounded vl" and "py > - 0.1" and "m i = Some v"
  shows "rideIndex (isGrounded vl) (px, py, - 10 - 6 * real_of_int i) = Some i
       \<and> extraX m (isGrounded vl) (px, py, - 10 - 6 * real_of_int i) = v
       \<and> rideIndex (isGrounded vl) (px, py, - 10 - 6 * real_of_int i + 2.49) = Some i
       \<and> extraX m (isGrounded vl) (px, py, - 10 - 6 * real_of_int i + 2.49) = v
       \<and> rideIndex (isGrounded vl) (px, py, - 10 - 6 * real_of_int i - 2.49) = Some i
       \<and> extraX m (isGrounded vl) (px, py, - 10 - 6 * real_of_int i - 2.49) = v
       \<and> rideIndex (isGrounded vl) (px, py, - 10 - 6 * real_of_int i + 2.51) = None
       \<and> extraX m (isGrounded vl) (px, py, - 10 - 6 * real_of_int i + 2.51) = 0
       \<and> rideIndex (isGrounded vl) (px, py, - 10 - 6 * real_of_int i - 2.51) = None
       \<and> extraX m (isGrounded vl) (px, py, - 10 - 6 * real_of_int i - 2.51) = 0"
proof -
  have on: "rideIndex (isGrounded vl) (px, py, - 10 - 6 * real_of_int i + d) = Some i"
    if "\<bar>d\<bar> < 2.5" for d
    using rideIndex_on_band [OF assms(1) assms(3) that] assms(2) by simp
  have off: "rideIndex (isGrounded vl) (px, py, - 10 - 6 * real_of_int i + d) = None"
    if "\<bar>d\<bar> < 3" and "2.5 \<le> \<bar>d\<bar>" for d
    using rideIndex_off_band [OF that] by simp
  have a0: "rideIndex (isGrounded vl) (px, py, - 10 - 6 * real_of_int i) = Some i"
    using on [of 0] by simp
  have a1: "rideIndex (isGrounded vl) (px, py, - 10 - 6 * real_of_int i + 2.49) = Some i"
    using on [of "2.49"] by simp
  have a2: "rideIndex (isGrounded vl) (px, py, - 10 - 6 * real_of_int i - 2.49) = Some i"
    using on [of "- 2.49"] by simp
  have b1: "rideIndex (isGrounded vl) (px, py, - 10 - 6 * real_of_int i + 2.51) = None"
    using off [of "2.51"] by simp
  have b2: "rideIndex (isGrounded vl) (px, py, - 10 - 6 * real_of_int i - 2.51) = None"
    using off [of "- 2.51"] by simp
  have g: "get_or m i 0 = v"
    using assms(4) by (rule get_or_Some)
  show ?thesis
    unfolding extraX_rideIndex a0 a1 a2 b1 b2 using g by simp
qed

theorem C1_witness:
  "rideIndex True (0, 0.75, - 28) = Some 3
   \<and> extraX [3 \<mapsto> 1.5] True (0, 0.75, - 28) = 1.5
   \<and> extraX [3 \<mapsto> 1.5] True (0, 0.75, - 25.51) = 1.5
   \<and> extraX [3 \<mapsto> 1.5] True (0, 0.75, - 30.49) = 1.5
   \<and> extraX [3 \<mapsto> 1.5] True (0, 0.75, - 25.49) = 0
   \<and> extraX [3 \<mapsto> 1.5] True (0, 0.75, - 30.51) = 0"
  using C1_ride_resolver_tolerance [of 3 "(0, 0, 0)" "0.75" "[3 \<mapsto> 1.5]" "1.5" 0]
  by (simp add: isGrounded_def at1_def)

text \<open>
  C2. For every elapsed time, phase offset, amplitude and angular speed, the velocity a
  platform publishes into the shared table and writes to its body is the exact derivative,
  with respect to elapsed time, of the X position it writes to its body; the other
  velocity components are zero.
\<close>

theorem C2_velocity_is_derivative:
  "((\<lambda>t. at0 (position_set (MovingPlatform_useFrame p t m))) has_real_derivative
      at0 (velocity_set (MovingPlatform_useFrame p t m))) (at t)
   \<and> map_after (MovingPlatform_useFrame p t m) (index p) = Some (at0 (velocity_set (MovingPlatform_useFrame p t m)))
   \<and> at0 (velocity_set (MovingPlatform_useFrame p t m)) = cos ((t + offset p) * speed p) * speed p * range_amp p
   \<and> at0 (position_set (MovingPlatform_useFrame p t m)) = at0 (position p) + sin ((t + offset p) * speed p) * range_amp p
   \<and> at1 (velocity_set (MovingPlatform_useFrame p t m)) = 0
   \<and> at2 (velocity_set (MovingPlatform_useFrame p t m)) = 0"
proof -
  have "((\<lambda>t. at0 (position p) + sin ((t + offset p) * speed p) * range_amp p) has_real_derivative
          cos ((t + offset p) * speed p) * speed p * range_amp p) (at t)"
    by (auto intro!: derivative_eq_intros)
  then show ?thesis
    by (simp add: MovingPlatform_useFrame_def Let_def at0_def at1_def at2_def)
qed

text \<open>
  C3, as amended. On every frame that is not a reset frame (\<open>py < -5\<close> is false), in both
  variants, the calls of the frame are: the steering command, then the jump command when
  the jump fires, then the two camera calls. The steering command is the input vector,
  normalised only when its magnitude exceeds 1, times the move speed 6, with \<open>extraX\<close> added
  to the X component only, and the vertical velocity last received. When the jump does not
  fire, the steering command is the velocity the frame leaves the body with. A diagonal
  discrete input (both components of the intent \<open>1\<close> or \<open>-1\<close>, as with forward and right
  pressed on either input source) gives a horizontal steering speed of exactly 6.
\<close>

theorem C3_horizontal_velocity:
  assumes "\<not> at1 (pos r) < - 5"
  shows "fst (Player_useFrame e r) =
           [VelocitySet (fst (spec_normalize (dxdz e)) * 6
                           + extraX (platformsMap e) (isGrounded (vel r)) (pos r),
                         at1 (vel r),
                         snd (spec_normalize (dxdz e)) * 6)]
           @ (if jump_buttons e \<and> \<not> wasJumpPressed r \<and> isGrounded (vel r)
              then [VelocitySet (at0 (vel r), 9, at2 (vel r))] else [])
           @ camera_calls (pos r)
       \<and> fst (Player_useFrame_joystick e r) =
           [VelocitySet (fst (spec_normalize (inputXZ (keyboard e) (joystickVector e))) * 6
                           + extraX (platformsMap e) (isGrounded (vel r)) (pos r),
                         at1 (vel r),
                         snd (spec_normalize (inputXZ (keyboard e) (joystickVector e))) * 6)]
           @ (if jump_joystick e \<and> \<not> wasJumpPressed r \<and> isGrounded (vel r)
              then [VelocitySet (at0 (vel r), 9, at2 (vel r))] else [])
           @ camera_calls (pos r)
       \<and> (\<not> (jump_buttons e \<and> \<not> wasJumpPressed r \<and> isGrounded (vel r)) \<longrightarrow>
            finalVelocity (fst (Player_useFrame e r)) =
              Some (fst (spec_normalize (dxdz e)) * 6
                      + extraX (platformsMap e) (isGrounded (vel r)) (pos r),
                    at1 (vel r),
                    snd (spec_normalize (dxdz e)) * 6))
       \<and> (\<not> (jump_joystick e \<and> \<not> wasJumpPressed r \<and> isGrounded (vel r)) \<longrightarrow>
            finalVelocity (fst (Player_useFrame_joystick e r)) =
              Some (fst (spec_normalize (inputXZ (keyboard e) (joystickVector e))) * 6
                      + extraX (platformsMap e) (isGrounded (vel r)) (pos r),
                    at1 (vel r),
                    snd (spec_normalize (inputXZ (keyboard e) (joystickVector e))) * 6))
       \<and> (\<bar>fst (dxdz e)\<bar> = 1 \<and> \<bar>snd (dxdz e)\<bar> = 1 \<longrightarrow>
            sqrt ((fst (direction (dxdz e)))\<^sup>2 + (snd (direction (dxdz e)))\<^sup>2) = 6)
       \<and> (\<bar>fst (inputXZ (keyboard e) (joystickVector e))\<bar> = 1
            \<and> \<bar>snd (inputXZ (keyboard e) (joystickVector e))\<bar> = 1 \<longrightarrow>
            sqrt ((fst (velXZ (inputXZ (keyboard e) (joystickVector e))))\<^sup>2
                  + (snd (velXZ (inputXZ (keyboard e) (joystickVector e))))\<^sup>2) = 6)
       \<and> ((forward (keyboard e) \<or> forward (mobileInput e)) \<and> (right (keyboard e) \<or> right (mobileInput e))
            \<and> \<not> (backward (keyboard e) \<or> backward (mobileInput e))
            \<and> \<not> (left (keyboard e) \<or> left (mobileInput e)) \<longrightarrow>
            dxdz e = (1, - 1))
       \<and> (forward (keyboard e) \<and> right (keyboard e) \<and> \<not> backward (keyboard e) \<and> \<not> left (keyboard e) \<longrightarrow>
            inputXZ (keyboard e) (joystickVector e) = (1, - 1))"
proof (intro conjI impI)
  show "fst (Player_useFrame e r) =
           [VelocitySet (fst (spec_normalize (dxdz e)) * 6
                           + extraX (platformsMap e) (isGrounded (vel r)) (pos r),
                         at1 (vel r),
                         snd (spec_normalize (dxdz e)) * 6)]
           @ (if jump_buttons e \<and> \<not> wasJumpPressed r \<and> isGrounded (vel r)
              then [VelocitySet (at0 (vel r), 9, at2 (vel r))] else [])
           @ camera_calls (pos r)"
    using assms by (rule frame_calls_buttons)
  show "fst (Player_useFrame_joystick e r) =
           [VelocitySet (fst (spec_normalize (inputXZ (keyboard e) (joystickVector e))) * 6
                           + extraX (platformsMap e) (isGrounded (vel r)) (pos r),
                         at1 (vel r),
                         snd (spec_normalize (inputXZ (keyboard e) (joystickVector e))) * 6)]
           @ (if jump_joystick e \<and> \<not> wasJumpPressed r \<and> isGrounded (vel r)
              then [VelocitySet (at0 (vel r), 9, at2 (vel r))] else [])
           @ camera_calls (pos r)"
    using assms by (rule frame_calls_joystick)
next
  assume n: "\<not> (jump_buttons e \<and> \<not> wasJumpPressed r \<and> isGrounded (vel r))"
  show "finalVelocity (fst (Player_useFrame e r)) =
              Some (fst (spec_normalize (dxdz e)) * 6
                      + extraX (platformsMap e) (isGrounded (vel r)) (pos r),
                    at1 (vel r),
                    snd (spec_normalize (dxdz e)) * 6)"
    unfolding frame_calls_buttons [OF assms] if_not_P [OF n]
    by (rule finalVelocity_steering_frame)
next
  assume n: "\<not> (jump_joystick e \<and> \<not> wasJumpPressed r \<and> isGrounded (vel r))"
  show "finalVelocity (fst (Player_useFrame_joystick e r)) =
              Some (fst (spec_normalize (inputXZ (keyboard e) (joystickVector e))) * 6
                      + extraX (platformsMap e) (isGrounded (vel r)) (pos r),
                    at1 (vel r),
                    snd (spec_normalize (inputXZ (keyboard e) (joystickVector e))) * 6)"
    unfolding frame_calls_joystick [OF assms] if_not_P [OF n]
    by (rule finalVelocity_steering_frame)
next
  assume d: "\<bar>fst (dxdz e)\<bar> = 1 \<and> \<bar>snd (dxdz e)\<bar> = 1"
  then have a: "\<bar>fst (dxdz e)\<bar> = 1" and b: "\<bar>snd (dxdz e)\<bar> = 1" by simp_all
  show "sqrt ((fst (direction (dxdz e)))\<^sup>2 + (snd (direction (dxdz e)))\<^sup>2) = 6"
    unfolding diagonal_abs(2) [OF a b] by (rule diagonal_abs(1) [OF a b])
next
  assume d: "\<bar>fst (inputXZ (keyboard e) (joystickVector e))\<bar> = 1
            \<and> \<bar>snd (inputXZ (keyboard e) (joystickVector e))\<bar> = 1"
  then show "sqrt ((fst (velXZ (inputXZ (keyboard e) (joystickVector e))))\<^sup>2
                  + (snd (velXZ (inputXZ (keyboard e) (joystickVector e))))\<^sup>2) = 6"
    by (simp add: diagonal_abs(1))
next
  assume "(forward (keyboard e) \<or> forward (mobileInput e)) \<and> (right (keyboard e) \<or> right (mobileInput e))
            \<and> \<not> (backward (keyboard e) \<or> backward (mobileInput e))
            \<and> \<not> (left (keyboard e) \<or> left (mobileInput e))"
  then show "dxdz e = (1, - 1)"
    by (simp add: dxdz_def Let_def)
next
  assume "forward (keyboard e) \<and> right (keyboard e) \<and> \<not> backward (keyboard e) \<and> \<not> left (keyboard e)"
  then show "inputXZ (keyboard e) (joystickVector e) = (1, - 1)"
    by (simp add: inputXZ_def Let_def)
qed

theorem C3_witness:
  "\<not> at1 (pos \<lparr> pos = (0, 0.75, 0), vel = (0, 0, 0), wasJumpPressed = False \<rparr>) < - 5
   \<and> dxdz (initial_env\<lparr>keyboard := released\<lparr>forward := True, right := True\<rparr>\<rparr>) = (1, - 1)
   \<and> finalVelocity (fst (Player_useFrame (initial_env\<lparr>keyboard := released\<lparr>forward := True, right := True\<rparr>\<rparr>)
                 \<lparr> pos = (0, 0.75, 0), vel = (0, 0, 0), wasJumpPressed = False \<rparr>)) =
       Some (fst (spec_normalize (1, - 1)) * 6 + 0, 0, snd (spec_normalize (1, - 1)) * 6)
   \<and> finalVelocity (fst (Player_useFrame_joystick (initial_env\<lparr>keyboard := released\<lparr>forward := True, right := True\<rparr>\<rparr>)
                 \<lparr> pos = (0, 0.75, 0), vel = (0, 0, 0), wasJumpPressed = False \<rparr>)) =
       Some (fst (spec_normalize (1, - 1)) * 6 + 0, 0, snd (spec_normalize (1, - 1)) * 6)
   \<and> sqrt ((fst (direction (1, - 1)))\<^sup>2 + (snd (direction (1, - 1)))\<^sup>2) = 6
   \<and> sqrt ((fst (velXZ (1, - 1)))\<^sup>2 + (snd (velXZ (1, - 1)))\<^sup>2) = 6"
proof -
  let ?e = "initial_env\<lparr>keyboard := released\<lparr>forward := True, right := True\<rparr>\<rparr>"
  let ?r = "\<lparr> pos = (0, 0.75, 0), vel = (0, 0, 0), wasJumpPressed = False \<rparr>"
  have h: "\<not> at1 (pos ?r) < - 5"
    by (simp add: at1_def)
  have k: "forward (keyboard ?e) \<and> right (keyboard ?e) \<and> \<not> backward (keyboard ?e) \<and> \<not> left (keyboard ?e)"
          "\<not> backward (mobileInput ?e) \<and> \<not> left (mobileInput ?e)"
    by (simp_all add: initial_env_def released_def)
  have nj: "\<not> jump_buttons ?e" "\<not> jump_joystick ?e"
    by (simp_all add: jump_buttons_def jump_joystick_def initial_env_def released_def)
  have d: "dxdz ?e = (1, - 1)"
    by (simp add: dxdz_def initial_env_def released_def Let_def)
  have i: "inputXZ (keyboard ?e) (joystickVector ?e) = (1, - 1)"
    by (simp add: inputXZ_def initial_env_def released_def Let_def)
  have "- (1 / 10) < (3 / 4 :: real)" by simp
  moreover have "Math_round (- (5 / 3)) = - 2"
    by (simp add: Math_round_def floor_eq_iff)
  ultimately have x: "extraX m g (0, 3 / 4, 0) = 0" for m g
    by (simp add: extraX_def at1_def at2_def Let_def)
  note t = C3_horizontal_velocity [OF h, of ?e]
  from t nj have fb: "finalVelocity (fst (Player_useFrame ?e ?r)) =
              Some (fst (spec_normalize (dxdz ?e)) * 6
                      + extraX (platformsMap ?e) (isGrounded (vel ?r)) (pos ?r),
                    at1 (vel ?r), snd (spec_normalize (dxdz ?e)) * 6)"
    by blast
  from t nj have fj: "finalVelocity (fst (Player_useFrame_joystick ?e ?r)) =
              Some (fst (spec_normalize (inputXZ (keyboard ?e) (joystickVector ?e))) * 6
                      + extraX (platformsMap ?e) (isGrounded (vel ?r)) (pos ?r),
                    at1 (vel ?r), snd (spec_normalize (inputXZ (keyboard ?e) (joystickVector ?e))) * 6)"
    by blast
  have ab: "\<bar>fst (dxdz ?e)\<bar> = 1 \<and> \<bar>snd (dxdz ?e)\<bar> = 1"
    unfolding d by simp
  have aj: "\<bar>fst (inputXZ (keyboard ?e) (joystickVector ?e))\<bar> = 1
            \<and> \<bar>snd (inputXZ (keyboard ?e) (joystickVector ?e))\<bar> = 1"
    unfolding i by simp
  from t ab have sb: "sqrt ((fst (direction (dxdz ?e)))\<^sup>2 + (snd (direction (dxdz ?e)))\<^sup>2) = 6"
    by blast
  from t aj have sj: "sqrt ((fst (velXZ (inputXZ (keyboard ?e) (joystickVector ?e))))\<^sup>2
                  + (snd (velXZ (inputXZ (keyboard ?e) (joystickVector ?e))))\<^sup>2) = 6"
    by blast
  have fb': "finalVelocity (fst (Player_useFrame ?e ?r)) =
       Some (fst (spec_normalize (1, - 1)) * 6 + 0, 0, snd (spec_normalize (1, - 1)) * 6)"
    using fb unfolding d by (simp add: at1_def x)
  have fj': "finalVelocity (fst (Player_useFrame_joystick ?e ?r)) =
       Some (fst (spec_normalize (1, - 1)) * 6 + 0, 0, snd (spec_normalize (1, - 1)) * 6)"
    using fj unfolding i by (simp add: at1_def x)
  show ?thesis
    using h d fb' fj' sb [unfolded d] sj [unfolded i] by blast
qed

text \<open>
  C3 as stated fails on a frame on which the jump fires: with right and jump pressed on
  platform 3 (table entry 1.5) and the velocity last received \<open>(2, 0.25, -3)\<close>, the formula
  gives the horizontal command \<open>(7.5, 0)\<close>, but the frame leaves the body with
  \<open>(2, 9, -3)\<close>.
\<close>

theorem C3_counterexample:
  "\<not> at1 (pos \<lparr> pos = (0, 0.75, - 28), vel = (2, 0.25, - 3), wasJumpPressed = False \<rparr>) < - 5
   \<and> finalVelocity (fst (Player_useFrame
        (initial_env\<lparr>keyboard := released\<lparr>right := True, jump := True\<rparr>,
                      platformsMap := (platformsMap initial_env)(3 \<mapsto> 1.5)\<rparr>)
        \<lparr> pos = (0, 0.75, - 28), vel = (2, 0.25, - 3), wasJumpPressed = False \<rparr>)) = Some (2, 9, - 3)
   \<and> finalVelocity (fst (Player_useFrame_joystick
        (initial_env\<lparr>keyboard := released\<lparr>right := True, jump := True\<rparr>,
                      platformsMap := (platformsMap initial_env)(3 \<mapsto> 1.5)\<rparr>)
        \<lparr> pos = (0, 0.75, - 28), vel = (2, 0.25, - 3), wasJumpPressed = False \<rparr>)) = Some (2, 9, - 3)
   \<and> fst (spec_normalize (dxdz (initial_env\<lparr>keyboard := released\<lparr>right := True, jump := True\<rparr>\<rparr>))) * 6
       + extraX ((platformsMap initial_env)(3 \<mapsto> 1.5)) (isGrounded (2, 0.25, - 3)) (0, 0.75, - 28) = 7.5
   \<and> snd (spec_normalize (dxdz (initial_env\<lparr>keyboard := released\<lparr>right := True, jump := True\<rparr>\<rparr>))) * 6 = 0"
proof -
  let ?e = "initial_env\<lparr>keyboard := released\<lparr>right := True, jump := True\<rparr>,
                        platformsMap := (platformsMap initial_env)(3 \<mapsto> 1.5)\<rparr>"
  let ?r = "\<lparr> pos = (0, 0.75, - 28), vel = (2, 0.25, - 3), wasJumpPressed = False \<rparr>"
  have g: "isGrounded (2, 0.25, - 3)"
    by (simp add: isGrounded_def at1_def)
  have j: "jump_buttons ?e" "jump_joystick ?e"
    by (simp_all add: jump_buttons_def jump_joystick_def released_def)
  have b: "finalVelocity (fst (Player_useFrame ?e ?r)) = Some (2, 9, - 3)"
    using g j by (simp add: Player_useFrame_def Let_def camera_calls_def at0_def at1_def at2_def)
  have y: "finalVelocity (fst (Player_useFrame_joystick ?e ?r)) = Some (2, 9, - 3)"
    using g j by (simp add: Player_useFrame_joystick_def Let_def camera_calls_def at0_def at1_def at2_def)
  have d: "dxdz (initial_env\<lparr>keyboard := released\<lparr>right := True, jump := True\<rparr>\<rparr>) = (1, 0)"
    by (simp add: dxdz_def initial_env_def released_def Let_def)
  have n: "spec_normalize (1, 0) = (1, 0)"
    by (simp add: spec_normalize_def Let_def)
  have x: "extraX ((platformsMap initial_env)(3 \<mapsto> 3 / 2)) True (0, 3 / 4, - 28) = 3 / 2"
    by (simp add: extraX_def Math_round_def get_or_def at1_def at2_def Let_def)
  show ?thesis
    using b y g unfolding d n by (simp add: x at1_def)
qed

text \<open>
  C4, as amended. Across any sequence of frames on each of which the player is grounded
  and no reset happens (\<open>py \<ge> -5\<close>), in both variants, the jump impulse (a velocity set
  with vertical component 9) fires on frame \<open>k\<close> exactly when the jump intent is pressed
  on frame \<open>k\<close> and was not pressed on the frame before (for the first frame: when
  \<open>wasJumpPressed\<close> is false on entry). So a held jump fires on the first frame of the
  press only, never while \<open>wasJumpPressed\<close> is true, and a press after a released frame
  fires again.
\<close>

theorem C4_jump_edge_detection:
  assumes "\<forall>(e, p, v) \<in> set fs. isGrounded v \<and> \<not> at1 p < - 5"
    and "k < length fs"
  shows "jumpImpulse (runFrames Player_useFrame w fs ! k) =
           (jump_buttons (fst (fs ! k)) \<and> \<not> (if k = 0 then w else jump_buttons (fst (fs ! (k - 1)))))
       \<and> jumpImpulse (runFrames Player_useFrame_joystick w fs ! k) =
           (jump_joystick (fst (fs ! k)) \<and> \<not> (if k = 0 then w else jump_joystick (fst (fs ! (k - 1)))))"
proof
  show "jumpImpulse (runFrames Player_useFrame w fs ! k) =
           (jump_buttons (fst (fs ! k)) \<and> \<not> (if k = 0 then w else jump_buttons (fst (fs ! (k - 1)))))"
    by (rule runFrames_edge [OF frame_buttons_jump assms])
  show "jumpImpulse (runFrames Player_useFrame_joystick w fs ! k) =
           (jump_joystick (fst (fs ! k)) \<and> \<not> (if k = 0 then w else jump_joystick (fst (fs ! (k - 1)))))"
    by (rule runFrames_edge [OF frame_joystick_jump assms])
qed

theorem C4_witness:
  "jumpImpulse (runFrames Player_useFrame False
      [(initial_env\<lparr>keyboard := released\<lparr>jump := True\<rparr>\<rparr>, (0, 0.75, 0), (0, 0, 0)),
       (initial_env\<lparr>keyboard := released\<lparr>jump := True\<rparr>\<rparr>, (0, 0.75, 0), (0, 0, 0)),
       (initial_env, (0, 0.75, 0), (0, 0, 0)),
       (initial_env\<lparr>keyboard := released\<lparr>jump := True\<rparr>\<rparr>, (0, 0.75, 0), (0, 0, 0))] ! 0)
   \<and> \<not> jumpImpulse (runFrames Player_useFrame False
      [(initial_env\<lparr>keyboard := released\<lparr>jump := True\<rparr>\<rparr>, (0, 0.75, 0), (0, 0, 0)),
       (initial_env\<lparr>keyboard := released\<lparr>jump := True\<rparr>\<rparr>, (0, 0.75, 0), (0, 0, 0)),
       (initial_env, (0, 0.75, 0), (0, 0, 0)),
       (initial_env\<lparr>keyboard := released\<lparr>jump := True\<rparr>\<rparr>, (0, 0.75, 0), (0, 0, 0))] ! 1)
   \<and> \<not> jumpImpulse (runFrames Player_useFrame False
      [(initial_env\<lparr>keyboard := released\<lparr>jump := True\<rparr>\<rparr>, (0, 0.75, 0), (0, 0, 0)),
       (initial_env\<lparr>keyboard := released\<lparr>jump := True\<rparr>\<rparr>, (0, 0.75, 0), (0, 0, 0)),
       (initial_env, (0, 0.75, 0), (0, 0, 0)),
       (initial_env\<lparr>keyboard := released\<lparr>jump := True\<rparr>\<rparr>, (0, 0.75, 0), (0, 0, 0))] ! 2)
   \<and> jumpImpulse (runFrames Player_useFrame_joystick False
      [(initial_env\<lparr>keyboard := released\<lparr>jump := True\<rparr>\<rparr>, (0, 0.75, 0), (0, 0, 0)),
       (initial_env\<lparr>keyboard := released\<lparr>jump := True\<rparr>\<rparr>, (0, 0.75, 0), (0, 0, 0)),
       (initial_env, (0, 0.75, 0), (0, 0, 0)),
       (initial_env\<lparr>keyboard := released\<lparr>jump := True\<rparr>\<rparr>, (0, 0.75, 0), (0, 0, 0))] ! 3)"
proof -
  let ?held = "initial_env\<lparr>keyboard := released\<lparr>jump := True\<rparr>\<rparr>"
  let ?fs = "[(?held, (0, 0.75, 0), (0, 0, 0)), (?held, (0, 0.75, 0), (0, 0, 0)),
              (initial_env, (0, 0.75, 0), (0, 0, 0)), (?held, (0, 0.75, 0), (0, 0, 0))]
             :: (frame_env \<times> vec3 \<times> vec3) list"
  have ok: "\<forall>(e, p, v) \<in> set ?fs. isGrounded v \<and> \<not> at1 p < - 5"
    by (simp add: isGrounded_def at1_def)
  have j: "jump_buttons ?held" "jump_joystick ?held" "\<not> jump_buttons initial_env" "\<not> jump_joystick initial_env"
    by (simp_all add: jump_buttons_def jump_joystick_def released_def initial_env_def)
  have k0: "jumpImpulse (runFrames Player_useFrame False ?fs ! 0)"
    using C4_jump_edge_detection [OF ok, of 0 False] j by simp
  have k1: "\<not> jumpImpulse (runFrames Player_useFrame False ?fs ! 1)"
    using C4_jump_edge_detection [OF ok, of 1 False] j by simp
  have k2: "\<not> jumpImpulse (runFrames Player_useFrame False ?fs ! 2)"
    using C4_jump_edge_detection [OF ok, of 2 False] j by simp
  have k3: "jumpImpulse (runFrames Player_useFrame_joystick False ?fs ! 3)"
    using C4_jump_edge_detection [OF ok, of 3 False] j by simp
  show ?thesis
    using k0 k1 k2 k3 by blast
qed

text \<open>
  C4 as stated fails on a reset frame: the player counts as grounded (\<open>|vy| < 0.5\<close>) on
  both frames and jump is held on both, but the first frame has \<open>py < -5\<close> and returns
  before the jump logic and before \<open>wasJumpPressed\<close> is updated; the impulse fires on the
  second frame of the press, not on the first.
\<close>

theorem C4_counterexample:
  "isGrounded (0, 0, 0)
   \<and> jump_buttons (initial_env\<lparr>keyboard := released\<lparr>jump := True\<rparr>\<rparr>)
   \<and> map jumpImpulse (runFrames Player_useFrame False
        [(initial_env\<lparr>keyboard := released\<lparr>jump := True\<rparr>\<rparr>, (0, - 6, 0), (0, 0, 0)),
         (initial_env\<lparr>keyboard := released\<lparr>jump := True\<rparr>\<rparr>, (0, 0.75, 0), (0, 0, 0))])
      = [False, True]"
  by (simp add: Player_useFrame_def Let_def jumpImpulse_def camera_calls_def isGrounded_def
        at1_def jump_buttons_def released_def initial_env_def)

text \<open>
  C5. On a frame with \<open>py < -5\<close>, in both variants, the frame makes exactly two calls, the
  position set to the spawn \<open>(0, 5, 0)\<close> and the velocity set to \<open>(0, 0, 0)\<close>, and leaves the
  refs as they were: no steering, no jump, no camera call, \<open>wasJumpPressed\<close> not updated.
  On a frame with \<open>py \<ge> -5\<close> the position is not set.
\<close>

theorem C5_reset_below_minus_five:
  "(at1 (pos r) < - 5 \<longrightarrow>
      Player_useFrame e r = ([PositionSet (0, 5, 0), VelocitySet (0, 0, 0)], r)
    \<and> Player_useFrame_joystick e r = ([PositionSet (0, 5, 0), VelocitySet (0, 0, 0)], r))
   \<and> (at1 (pos r) \<ge> - 5 \<longrightarrow>
      \<not> list_ex is_position_set (fst (Player_useFrame e r))
    \<and> \<not> list_ex is_position_set (fst (Player_useFrame_joystick e r)))"
  by (simp add: Player_useFrame_def Player_useFrame_joystick_def Let_def initialPosition_def
        camera_calls_def)

theorem C5_witness:
  "Player_useFrame initial_env \<lparr> pos = (0, - 6, 0), vel = (0, - 11, 0), wasJumpPressed = True \<rparr> =
     ([PositionSet (0, 5, 0), VelocitySet (0, 0, 0)],
      \<lparr> pos = (0, - 6, 0), vel = (0, - 11, 0), wasJumpPressed = True \<rparr>)
   \<and> \<not> list_ex is_position_set
         (fst (Player_useFrame_joystick initial_env \<lparr> pos = (0, - 5, 0), vel = (0, - 10, 0), wasJumpPressed = True \<rparr>))"
  using C5_reset_below_minus_five
          [of "\<lparr> pos = (0, - 6, 0), vel = (0, - 11, 0), wasJumpPressed = True \<rparr>" initial_env]
        C5_reset_below_minus_five
          [of "\<lparr> pos = (0, - 5, 0), vel = (0, - 10, 0), wasJumpPressed = True \<rparr>" initial_env]
  by (simp add: at1_def)

text \<open>
  C6. \<open>extraX\<close> is 0 unless the player is grounded, \<open>py > -0.1\<close>, the candidate index is
  at least 0 and \<open>pz\<close> is within 2.5 of its target; it is 0 as well when the table has no
  entry at the candidate index. It is always a number: 0 or an entry of the table.
\<close>

theorem C6_extraX_zero_unless_riding:
  "(\<not> (isGrounded (vel r) \<and> at1 (pos r) > - 0.1
        \<and> 0 \<le> Math_round ((at2 (pos r) + 10) / (- 6))
        \<and> \<bar>at2 (pos r) - (- 10 - real_of_int (Math_round ((at2 (pos r) + 10) / (- 6))) * 6)\<bar> < 2.5) \<longrightarrow>
      extraX m (isGrounded (vel r)) (pos r) = 0)
   \<and> (m (Math_round ((at2 (pos r) + 10) / (- 6))) = None \<longrightarrow>
      extraX m (isGrounded (vel r)) (pos r) = 0)
   \<and> (extraX m (isGrounded (vel r)) (pos r) = 0
      \<or> (\<exists>i. m i = Some (extraX m (isGrounded (vel r)) (pos r))))"
  by (auto simp: extraX_def get_or_def Let_def split: option.splits)

theorem C6_witness:
  "extraX [3 \<mapsto> 1.5] (isGrounded (0, - 3, 0)) (0, 0.75, - 28) = 0
   \<and> extraX [3 \<mapsto> 1.5] (isGrounded (0, 0, 0)) (0, 0.75, - 75) = 0
   \<and> isGrounded (0, 0, 0) \<and> \<not> isGrounded (0, - 3, 0)
   \<and> rideIndex True (0, 0.75, - 75) = Some 11"
proof -
  have r: "Math_round (65 / 6) = 11"
    by (simp add: Math_round_def floor_eq_iff)
  have a: "\<not> isGrounded (0, - 3, 0)" and b: "isGrounded (0, 0, 0)"
    by (simp_all add: isGrounded_def at1_def)
  have c: "rideIndex True (0, 0.75, - 75) = Some 11"
    using r by (simp add: rideIndex_def at1_def at2_def Let_def)
  show ?thesis
    using C6_extraX_zero_unless_riding
            [of "\<lparr> pos = (0, 0.75, - 28), vel = (0, - 3, 0), wasJumpPressed = False \<rparr>" "[3 \<mapsto> 1.5]"]
          C6_extraX_zero_unless_riding
            [of "\<lparr> pos = (0, 0.75, - 75), vel = (0, 0, 0), wasJumpPressed = False \<rparr>" "[3 \<mapsto> 1.5]"]
          a b c r
    by (simp add: at2_def)
qed

text \<open>
  C7, as amended. In the joystick variant the priority of the keyboard is decided on each
  axis by itself: \<open>inputX\<close> is \<open>1\<close> or \<open>-1\<close> when exactly one of right and left is held and
  the joystick's \<open>x\<close> otherwise; \<open>inputZ\<close> is \<open>1\<close> or \<open>-1\<close> when exactly one of backward and
  forward is held and the joystick's \<open>y\<close> otherwise.
\<close>

theorem C7_keyboard_priority_per_axis:
  "inputXZ kb joy =
     (if left kb = right kb then fst joy else if right kb then 1 else - 1,
      if forward kb = backward kb then snd joy else if backward kb then 1 else - 1)"
  by (simp add: inputXZ_def Let_def)

theorem C7_witness:
  "inputXZ (released\<lparr>left := True, right := True, backward := True\<rparr>) (0.3, 0.4) = (0.3, 1)"
  using C7_keyboard_priority_per_axis
          [of "released\<lparr>left := True, right := True, backward := True\<rparr>" "(0.3, 0.4)"]
  by (simp add: released_def)

text \<open>
  C7 as stated fails: with only the right key held the keyboard's input is \<open>(1, 0)\<close>, which
  is not zero, yet a joystick pushed to \<open>(0, 1)\<close> still sets the Z component of the intent.
\<close>

theorem C7_counterexample:
  "inputXZ (released\<lparr>right := True\<rparr>) (0, 1) = (1, 1)
   \<and> inputXZ (released\<lparr>right := True\<rparr>) (0, 0) = (1, 0)"
  by (simp add: inputXZ_def released_def Let_def)

text \<open>
  C8. For an input vector with both components in \<open>{-1, 0, 1}\<close>, the button variant's
  velocity computation (divide by the length whenever it is positive) and the joystick
  variant's (divide by the length only when it exceeds 1) give the same pair; and with the
  touch inputs idle a whole frame of the two variants does the same.
\<close>

theorem C8_variants_agree_on_discrete_input:
  assumes "dx \<in> {- 1, 0, 1}" and "dz \<in> {- 1, 0, 1}"
  shows "direction (dx, dz) = velXZ (dx, dz)
       \<and> (mobileInput e = released \<and> joystickVector e = (0, 0) \<and> \<not> mobileJump e \<longrightarrow>
            Player_useFrame e r = Player_useFrame_joystick e r)"
proof (intro conjI impI)
  show "direction (dx, dz) = velXZ (dx, dz)"
    using assms by (rule direction_discrete)
next
  assume h: "mobileInput e = released \<and> joystickVector e = (0, 0) \<and> \<not> mobileJump e"
  have i: "inputXZ (keyboard e) (joystickVector e) = dxdz e"
    using h by (simp add: inputXZ_def dxdz_def released_def Let_def)
  obtain x z where d: "dxdz e = (x, z)" by (cases "dxdz e")
  have "x \<in> {- 1, 0, 1}" and "z \<in> {- 1, 0, 1}"
    using dxdz_cases [of e] unfolding d by auto
  then have v: "direction (dxdz e) = velXZ (dxdz e)"
    unfolding d by (rule direction_discrete)
  have j: "jump_buttons e = jump_joystick e"
    using h by (simp add: jump_buttons_def jump_joystick_def released_def)
  show "Player_useFrame e r = Player_useFrame_joystick e r"
    by (simp add: Player_useFrame_def Player_useFrame_joystick_def Let_def i v j)
qed

theorem C8_witness:
  "direction (1, - 1) = velXZ (1, - 1)
   \<and> Player_useFrame (initial_env\<lparr>keyboard := released\<lparr>forward := True, right := True\<rparr>\<rparr>)
        \<lparr> pos = (0, 0.75, 0), vel = (0, 0, 0), wasJumpPressed = False \<rparr> =
      Player_useFrame_joystick (initial_env\<lparr>keyboard := released\<lparr>forward := True, right := True\<rparr>\<rparr>)
        \<lparr> pos = (0, 0.75, 0), vel = (0, 0, 0), wasJumpPressed = False \<rparr>"
  using C8_variants_agree_on_discrete_input
          [of 1 "- 1" "initial_env\<lparr>keyboard := released\<lparr>forward := True, right := True\<rparr>\<rparr>"
              "\<lparr> pos = (0, 0.75, 0), vel = (0, 0, 0), wasJumpPressed = False \<rparr>"]
  by (simp add: initial_env_def)

text \<open>
  C9. On a frame on which the jump fires (jump intent, \<open>wasJumpPressed\<close> false, grounded,
  no reset), in both variants, the frame first sets the steering velocity and then sets
  the velocity again: the last velocity written has the horizontal components last
  received from the subscription, \<open>vel[0]\<close> and \<open>vel[2]\<close>, and the vertical component 9.
\<close>

theorem C9_jump_overwrites_steering:
  assumes "\<not> at1 (pos r) < - 5" and "isGrounded (vel r)" and "\<not> wasJumpPressed r"
  shows "(jump_buttons e \<longrightarrow>
            fst (Player_useFrame e r) =
              [VelocitySet (fst (direction (dxdz e)) + extraX (platformsMap e) (isGrounded (vel r)) (pos r),
                            at1 (vel r), snd (direction (dxdz e))),
               VelocitySet (at0 (vel r), 9, at2 (vel r))] @ camera_calls (pos r)
          \<and> finalVelocity (fst (Player_useFrame e r)) = Some (at0 (vel r), 9, at2 (vel r)))
       \<and> (jump_joystick e \<longrightarrow>
            fst (Player_useFrame_joystick e r) =
              [VelocitySet (fst (velXZ (inputXZ (keyboard e) (joystickVector e)))
                              + extraX (platformsMap e) (isGrounded (vel r)) (pos r),
                            at1 (vel r), snd (velXZ (inputXZ (keyboard e) (joystickVector e)))),
               VelocitySet (at0 (vel r), 9, at2 (vel r))] @ camera_calls (pos r)
          \<and> finalVelocity (fst (Player_useFrame_joystick e r)) = Some (at0 (vel r), 9, at2 (vel r)))"
proof (intro conjI impI)
  assume j: "jump_buttons e"
  show b: "fst (Player_useFrame e r) =
              [VelocitySet (fst (direction (dxdz e)) + extraX (platformsMap e) (isGrounded (vel r)) (pos r),
                            at1 (vel r), snd (direction (dxdz e))),
               VelocitySet (at0 (vel r), 9, at2 (vel r))] @ camera_calls (pos r)"
    using assms j by (simp add: Player_useFrame_def Let_def)
  show "finalVelocity (fst (Player_useFrame e r)) = Some (at0 (vel r), 9, at2 (vel r))"
    unfolding b by (rule finalVelocity_jump_frame)
next
  assume j: "jump_joystick e"
  show b: "fst (Player_useFrame_joystick e r) =
              [VelocitySet (fst (velXZ (inputXZ (keyboard e) (joystickVector e)))
                              + extraX (platformsMap e) (isGrounded (vel r)) (pos r),
                            at1 (vel r), snd (velXZ (inputXZ (keyboard e) (joystickVector e)))),
               VelocitySet (at0 (vel r), 9, at2 (vel r))] @ camera_calls (pos r)"
    using assms j by (simp add: Player_useFrame_joystick_def Let_def)
  show "finalVelocity (fst (Player_useFrame_joystick e r)) = Some (at0 (vel r), 9, at2 (vel r))"
    unfolding b by (rule finalVelocity_jump_frame)
qed

theorem C9_witness:
  "fst (Player_useFrame (initial_env\<lparr>keyboard := released\<lparr>right := True, jump := True\<rparr>\<rparr>)
          \<lparr> pos = (0, 0.75, 0), vel = (0, 0, 0), wasJumpPressed = False \<rparr>) =
     [VelocitySet (6, 0, 0), VelocitySet (0, 9, 0)] @ camera_calls (0, 0.75, 0)
   \<and> finalVelocity (fst (Player_useFrame (initial_env\<lparr>keyboard := released\<lparr>right := True, jump := True\<rparr>\<rparr>)
          \<lparr> pos = (0, 0.75, 0), vel = (0, 0, 0), wasJumpPressed = False \<rparr>)) = Some (0, 9, 0)
   \<and> finalVelocity (fst (Player_useFrame_joystick (initial_env\<lparr>keyboard := released\<lparr>right := True, jump := True\<rparr>\<rparr>)
          \<lparr> pos = (0, 0.75, 0), vel = (0, 0, 0), wasJumpPressed = False \<rparr>)) = Some (0, 9, 0)"
proof -
  let ?e = "initial_env\<lparr>keyboard := released\<lparr>right := True, jump := True\<rparr>\<rparr>"
  let ?r = "\<lparr> pos = (0, 0.75, 0), vel = (0, 0, 0), wasJumpPressed = False \<rparr>"
  have h: "\<not> at1 (pos ?r) < - 5" "isGrounded (vel ?r)" "\<not> wasJumpPressed ?r"
    by (simp_all add: at1_def isGrounded_def)
  have j: "jump_buttons ?e" "jump_joystick ?e"
    by (simp_all add: jump_buttons_def jump_joystick_def released_def)
  have d: "dxdz ?e = (1, 0)"
    by (simp add: dxdz_def initial_env_def released_def Let_def)
  have dir: "direction (1, 0) = (6, 0)"
    by (simp add: direction_def Let_def moveSpeed_def)
  have "- (1 / 10) < (3 / 4 :: real)" by simp
  moreover have "Math_round (- (5 / 3)) = - 2"
    by (simp add: Math_round_def floor_eq_iff)
  ultimately have x: "extraX m True (0, 3 / 4, 0) = 0" for m
    by (simp add: extraX_def at1_def at2_def Let_def)
  show ?thesis
    using C9_jump_overwrites_steering [OF h, of ?e] j h(2) unfolding d dir
    by (simp add: at0_def at1_def at2_def x camera_calls_def)
qed

text \<open>
  C10. Starting from the empty table, after any sequence of frames of mounted platforms
  the keys of the table lie in \<open>0 .. 9\<close>; the mounted platforms carry the indices
  \<open>0, 1, .. , 9\<close>, one each, and once each has run a frame the keys are exactly \<open>0 .. 9\<close>.
  The acceptance check bounds the index from below only, so every accepted index of 10 or
  more misses the table and \<open>extraX\<close> is 0; this happens on the goal volume, whose Z is
  \<open>-75\<close>, where the accepted index is 11.
\<close>

theorem C10_table_keys_and_goal:
  assumes "\<forall>(p, t) \<in> set fs. p \<in> set (mounted rnd)"
  shows "dom (platformFrames fs Map.empty) \<subseteq> {0 .. 9}
       \<and> map index (mounted rnd) = map int [0 ..< 10]
       \<and> dom (platformFrames (map (\<lambda>p. (p, t)) (mounted rnd)) (platformFrames fs Map.empty)) = {0 .. 9}
       \<and> (\<forall>i \<ge> 10. rideIndex g p = Some i \<longrightarrow> extraX (platformFrames fs Map.empty) g p = 0)
       \<and> at2 (goalPosition rnd) = - 75
       \<and> (py > - 0.1 \<longrightarrow>
            rideIndex True (px, py, at2 (goalPosition rnd)) = Some 11
          \<and> extraX (platformFrames fs Map.empty) True (px, py, at2 (goalPosition rnd)) = 0)"
proof -
  let ?m = "platformFrames fs Map.empty"
  have "index ` fst ` set fs \<subseteq> index ` set (mounted rnd)"
    using assms by auto
  then have d: "dom ?m \<subseteq> {0 .. 9}"
    by (simp add: dom_platformFrames index_mounted_set)
  have "fst ` set (map (\<lambda>p. (p, t)) (mounted rnd)) = set (mounted rnd)"
    by (simp add: image_image)
  then have "dom (platformFrames (map (\<lambda>p. (p, t)) (mounted rnd)) ?m) = dom ?m \<union> {0 .. 9}"
    by (simp only: dom_platformFrames index_mounted_set)
  then have full: "dom (platformFrames (map (\<lambda>p. (p, t)) (mounted rnd)) ?m) = {0 .. 9}"
    using d by auto
  have miss: "extraX ?m g' p' = 0" if "rideIndex g' p' = Some i" and "10 \<le> i" for g' p' i
  proof -
    have "i \<notin> dom ?m" using d that(2) by auto
    then have "?m i = None" by auto
    then show ?thesis
      by (simp add: extraX_rideIndex that(1) get_or_None)
  qed
  have goal: "rideIndex True (px, py, at2 (goalPosition rnd)) = Some 11" if "py > - 0.1"
    using rideIndex_on_band [of 11 py 1 px] that by (simp add: goal_z)
  show ?thesis
    using d full miss goal by (simp add: index_mounted goal_z)
qed

theorem C10_witness:
  "dom (platformFrames [(hd (mounted (\<lambda>n. 1 / 2)), 0), (last (mounted (\<lambda>n. 1 / 2)), 2)] Map.empty)
     \<subseteq> {0 .. 9}
   \<and> rideIndex True (0, 0.75, - 75) = Some 11
   \<and> extraX (platformFrames [(hd (mounted (\<lambda>n. 1 / 2)), 0), (last (mounted (\<lambda>n. 1 / 2)), 2)] Map.empty)
        True (0, 0.75, - 75) = 0"
proof -
  let ?rnd = "\<lambda>n :: nat. 1 / 2 :: real"
  let ?fs = "[(hd (mounted ?rnd), 0 :: real), (last (mounted ?rnd), 2)]"
  have h: "\<forall>(p, t) \<in> set ?fs. p \<in> set (mounted ?rnd)"
    using mounted_not_Nil [of ?rnd] by simp
  have py: "(0.75 :: real) > - 0.1"
    by simp
  show ?thesis
    using C10_table_keys_and_goal [OF h, of 1 True "(0, 0.75, - 75)" "0.75" 0] py
    by (simp add: goal_z)
qed

end
